theory Spec2Isabelle
  imports Main "HOL-Library.AList"
begin

section \<open>Data model\<close>

text \<open>
  The debugger's editor handler (\<^verbatim>\<open>EditorHandler\<close>) and the breakpoints panel
  (\<^verbatim>\<open>Breakpoints\<close>) are embedded with explicit state passing.  A JavaScript
  \<^verbatim>\<open>number\<close> holding a line number is an \<open>int\<close>; a reference that may be
  \<^verbatim>\<open>null\<close> or \<^verbatim>\<open>undefined\<close> is an \<open>option\<close>; dereferencing \<^verbatim>\<open>null\<close>
  is the error value \<open>TypeError\<close>.
\<close>

datatype error = TypeError

text \<open>\<^verbatim>\<open>IDebugger.IBreakpoint\<close> as \<^verbatim>\<open>Private.createBreakpoint\<close> builds it.\<close>

record source =
  name :: string

record breakpoint =
  line :: int
  active :: bool
  verified :: bool
  source :: source

text \<open>The DOM element \<^verbatim>\<open>Private.createMarkerNode\<close> returns.\<close>

record marker =
  tagName :: string
  className :: string
  innerHTML :: string

text \<open>
  A line of the CodeMirror document.  \<open>gutterMarkers\<close> maps gutter identifiers to
  marker elements; the JavaScript value is \<^verbatim>\<open>null\<close> (falsy) exactly when no gutter
  holds a marker, which is the empty association list here.  The class attributes
  are lists of class names; a class occurs at most once in them, since
  \<^verbatim>\<open>addLineClass\<close> adds only a class that is absent.
\<close>

record cm_line =
  line_text :: string
  gutterMarkers :: "(string \<times> marker) list"
  textClass :: "string list"
  bgClass :: "string list"
  wrapClass :: "string list"

text \<open>
  \<^verbatim>\<open>Private.ILineInfo\<close>: the line's number (\<^verbatim>\<open>line\<close> in the source) and a copy of
  the fields of the line (\<^verbatim>\<open>handle\<close>); \<^verbatim>\<open>info.gutterMarkers\<close> is
  \<open>gutterMarkers (handle info)\<close>.
\<close>

record ILineInfo =
  info_line :: int
  handle :: cm_line

text \<open>
  \<^verbatim>\<open>CodeEditor.IEditor\<close> with its CodeMirror instance: the disposal flag, the text of
  the editor's model (\<^verbatim>\<open>model.value.text\<close>), the document's lines, the two options
  the handler sets, and the registered \<^verbatim>\<open>gutterClick\<close> listeners (each named by the
  handler that owns the listener function).
\<close>

record editor =
  isDisposed :: bool
  value_text :: string
  doc :: "cm_line list"
  lineNumbers :: bool
  gutters :: "string list"
  gutterClick :: "nat list"

text \<open>
  The debugger service (\<^verbatim>\<open>IDebugger\<close>).  Its model's breakpoint query
  \<^verbatim>\<open>getBreakpoints\<close> and its \<^verbatim>\<open>getCodeId\<close> are parameters; the two asynchronous
  operations are recorded as the requests issued, in order, and \<open>respond\<close> says how
  the service would settle the promise of a request.
\<close>

record BreakpointsModel =
  getBreakpoints :: "string \<Rightarrow> breakpoint list"

record DebuggerModel =
  breakpoints :: BreakpointsModel

datatype call =
  UpdateBreakpoints string "breakpoint list" "string option"
| ClearBreakpoints

datatype promise = Pending | Resolved | Rejected string

record IDebugger =
  session_client_path :: string
  session_client_name :: string
  model :: "DebuggerModel option"
  getCodeId :: "string \<Rightarrow> string"
  respond :: "call \<Rightarrow> promise"
  calls :: "call list"

text \<open>
  Signal connections made by a handler: the signal, and the \<^verbatim>\<open>thisArg\<close> the slot was
  connected with, if any.  \<^verbatim>\<open>ActivityMonitor\<close> is the debounce monitor.
\<close>

datatype signal =
  ModelChanged | ActivityStopped | CurrentFrameChanged
| BreakpointsChanged | BreakpointsRestored

record connection =
  conn_signal :: signal
  conn_thisArg :: "nat option"

record ActivityMonitor =
  timeout :: nat
  monitor_isDisposed :: bool

text \<open>
  The handler's fields; \<open>h_x\<close> is \<^verbatim>\<open>this._x\<close> of the source, \<open>h_isDisposed\<close> is
  \<^verbatim>\<open>this.isDisposed\<close> and \<open>h_ref\<close> is the identity of the handler object (of
  \<^verbatim>\<open>this\<close> and of its \<^verbatim>\<open>onGutterClick\<close> function).
\<close>

record EditorHandler =
  h_ref :: nat
  h_id :: string
  h_path :: "string option"
  h_editor :: "editor option"
  h_debuggerModel :: "DebuggerModel option"
  h_breakpointsModel :: "BreakpointsModel option"
  h_editorMonitor :: ActivityMonitor
  h_isDisposed :: bool
  h_connections :: "connection list"

record IOptions =
  opt_debuggerService :: IDebugger
  opt_editor :: "editor option"
  opt_path :: "string option"

section \<open>Constants and private helpers\<close>

definition LINE_HIGHLIGHT_CLASS :: string where
  "LINE_HIGHLIGHT_CLASS = ''jp-DebuggerEditor-highlight''"

definition EDITOR_CHANGED_TIMEOUT :: nat where
  "EDITOR_CHANGED_TIMEOUT = 1000"

text \<open>The marker's text is the character U+25CF, given by its UTF-8 bytes.\<close>

definition createMarkerNode :: marker where
  "createMarkerNode =
     \<lparr>tagName = ''div'', className = ''jp-DebuggerEditor-marker'',
      innerHTML = [CHR 0xE2, CHR 0x97, CHR 0x8F]\<rparr>"

definition createBreakpoint :: "string \<Rightarrow> int \<Rightarrow> breakpoint" where
  "createBreakpoint session n =
     \<lparr>line = n, active = True, verified = True, source = \<lparr>name = session\<rparr>\<rparr>"

section \<open>The editor's operations\<close>

text \<open>
  The CodeMirror operations the handler calls, as CodeMirror documents them:
  \<^verbatim>\<open>lineInfo\<close> answers \<^verbatim>\<open>null\<close> for a number that is not a line of the document;
  the operations that change a line addressed by number clip the number to the
  document's lines (\<^verbatim>\<open>clipLine\<close>); \<^verbatim>\<open>eachLine\<close> visits every line.  Of the places
  a line class can go, the gutter's class, which the handler never uses, is left
  out.
\<close>

definition lineCount :: "editor \<Rightarrow> int" where
  "lineCount ed = int (length (doc ed))"

definition isLine :: "editor \<Rightarrow> int \<Rightarrow> bool" where
  "isLine ed n = (0 \<le> n \<and> n < lineCount ed)"

definition lineInfo :: "editor \<Rightarrow> int \<Rightarrow> ILineInfo option" where
  "lineInfo ed n =
     (if isLine ed n then Some \<lparr>info_line = n, handle = doc ed ! nat n\<rparr> else None)"

definition clipLine :: "editor \<Rightarrow> int \<Rightarrow> int" where
  "clipLine ed n = max 0 (min n (lineCount ed - 1))"

definition changeLine :: "editor \<Rightarrow> int \<Rightarrow> (cm_line \<Rightarrow> cm_line) \<Rightarrow> editor" where
  "changeLine ed n f =
     (let i = nat (clipLine ed n)
      in if i < length (doc ed) then ed\<lparr>doc := (doc ed)[i := f (doc ed ! i)]\<rparr> else ed)"

definition eachLine :: "(cm_line \<Rightarrow> cm_line) \<Rightarrow> editor \<Rightarrow> editor" where
  "eachLine f ed = ed\<lparr>doc := map f (doc ed)\<rparr>"

definition setLineMarker :: "string \<Rightarrow> marker option \<Rightarrow> cm_line \<Rightarrow> cm_line" where
  "setLineMarker gutterID v l =
     (case v of
        Some m \<Rightarrow> l\<lparr>gutterMarkers := AList.update gutterID m (gutterMarkers l)\<rparr>
      | None \<Rightarrow> l\<lparr>gutterMarkers := AList.delete gutterID (gutterMarkers l)\<rparr>)"

definition setGutterMarker :: "editor \<Rightarrow> int \<Rightarrow> string \<Rightarrow> marker option \<Rightarrow> editor" where
  "setGutterMarker ed n gutterID v = changeLine ed n (setLineMarker gutterID v)"

definition addClass :: "string \<Rightarrow> string \<Rightarrow> cm_line \<Rightarrow> cm_line" where
  "addClass wh cls l =
     (let add = (\<lambda>cs. if cls \<in> set cs then cs else cs @ [cls])
      in if wh = ''text'' then l\<lparr>textClass := add (textClass l)\<rparr>
         else if wh = ''background'' then l\<lparr>bgClass := add (bgClass l)\<rparr>
         else l\<lparr>wrapClass := add (wrapClass l)\<rparr>)"

definition removeClass :: "string \<Rightarrow> string \<Rightarrow> cm_line \<Rightarrow> cm_line" where
  "removeClass wh cls l =
     (if wh = ''text'' then l\<lparr>textClass := removeAll cls (textClass l)\<rparr>
      else if wh = ''background'' then l\<lparr>bgClass := removeAll cls (bgClass l)\<rparr>
      else l\<lparr>wrapClass := removeAll cls (wrapClass l)\<rparr>)"

definition addLineClass :: "editor \<Rightarrow> int \<Rightarrow> string \<Rightarrow> string \<Rightarrow> editor" where
  "addLineClass ed n wh cls = changeLine ed n (addClass wh cls)"

section \<open>The service's operations\<close>

text \<open>
  \<^verbatim>\<open>updateBreakpoints\<close> and \<^verbatim>\<open>clearBreakpoints\<close> are asynchronous: each returns
  the promise of its request and the service with the request recorded.  The
  operator \<^verbatim>\<open>void\<close> drops the promise.
\<close>

definition updateBreakpoints ::
  "IDebugger \<Rightarrow> string \<Rightarrow> breakpoint list \<Rightarrow> string option \<Rightarrow> promise \<times> IDebugger" where
  "updateBreakpoints svc code bps path =
     (respond svc (UpdateBreakpoints code bps path),
      svc\<lparr>calls := calls svc @ [UpdateBreakpoints code bps path]\<rparr>)"

definition clearBreakpoints :: "IDebugger \<Rightarrow> promise \<times> IDebugger" where
  "clearBreakpoints svc =
     (respond svc ClearBreakpoints, svc\<lparr>calls := calls svc @ [ClearBreakpoints]\<rparr>)"

definition void :: "promise \<times> IDebugger \<Rightarrow> IDebugger" where
  "void r = snd r"

section \<open>EditorHandler: the static operations\<close>

definition clearHighlight :: "editor option \<Rightarrow> editor option" where
  "clearHighlight editor =
     (case editor of
        None \<Rightarrow> None
      | Some ed \<Rightarrow>
          if isDisposed ed then Some ed
          else Some (eachLine (removeClass ''wrap'' LINE_HIGHLIGHT_CLASS) ed))"

definition showCurrentLine :: "editor option \<Rightarrow> int \<Rightarrow> error + editor option" where
  "showCurrentLine editor n =
     (case clearHighlight editor of
        None \<Rightarrow> Inl TypeError
      | Some cmEditor \<Rightarrow>
          Inr (Some (addLineClass cmEditor (n - 1) ''wrap'' LINE_HIGHLIGHT_CLASS)))"

definition clearGutter :: "editor option \<Rightarrow> editor option" where
  "clearGutter editor =
     (case editor of
        None \<Rightarrow> None
      | Some cmEditor \<Rightarrow>
          Some (eachLine
            (\<lambda>l. if gutterMarkers l \<noteq> [] then setLineMarker ''breakpoints'' None l else l)
            cmEditor))"

section \<open>EditorHandler: the instance operations\<close>

text \<open>\<^verbatim>\<open>_getBreakpoints\<close>: the model's breakpoints for this editor's source.\<close>

definition handler_getBreakpoints :: "EditorHandler \<Rightarrow> IDebugger \<Rightarrow> error + breakpoint list" where
  "handler_getBreakpoints h svc =
     (case h_editor h of
        None \<Rightarrow> Inl TypeError
      | Some ed \<Rightarrow>
          (let code = value_text ed
           in case h_debuggerModel h of
                None \<Rightarrow> Inl TypeError
              | Some m \<Rightarrow>
                  Inr (getBreakpoints (breakpoints m)
                         (case h_path h of Some p \<Rightarrow> p | None \<Rightarrow> getCodeId svc code))))"

text \<open>
  \<^verbatim>\<open>_getBreakpointsFromEditor\<close>: the loop over the line numbers below
  \<^verbatim>\<open>lineCount()\<close>, collecting the line infos that have gutter markers.
\<close>

function getBreakpointsFromEditor_loop ::
  "editor \<Rightarrow> nat \<Rightarrow> ILineInfo list \<Rightarrow> error + ILineInfo list" where
  "getBreakpointsFromEditor_loop ed i lines =
     (if int i < lineCount ed then
        (case lineInfo ed (int i) of
           None \<Rightarrow> Inl TypeError
         | Some info \<Rightarrow>
             getBreakpointsFromEditor_loop ed (i + 1)
               (if gutterMarkers (handle info) \<noteq> [] then lines @ [info] else lines))
      else Inr lines)"
  by pat_completeness auto
termination
  by (relation "measure (\<lambda>(ed, i, lines). length (doc ed) - i)") (auto simp: lineCount_def)

declare getBreakpointsFromEditor_loop.simps [simp del]

definition getBreakpointsFromEditor :: "EditorHandler \<Rightarrow> error + ILineInfo list" where
  "getBreakpointsFromEditor h =
     (case h_editor h of
        None \<Rightarrow> Inl TypeError
      | Some editor \<Rightarrow> getBreakpointsFromEditor_loop editor 0 [])"

text \<open>\<^verbatim>\<open>_sendEditorBreakpoints\<close>, run when the debounce monitor reports that the
  editor's content has settled.\<close>

definition sendEditorBreakpoints :: "EditorHandler \<Rightarrow> IDebugger \<Rightarrow> error + IDebugger" where
  "sendEditorBreakpoints h svc =
     (case h_editor h of
        None \<Rightarrow> Inl TypeError
      | Some ed \<Rightarrow>
          if isDisposed ed then Inr svc
          else
            (case getBreakpointsFromEditor h of
               Inl e \<Rightarrow> Inl e
             | Inr infos \<Rightarrow>
                 (let bps = map (\<lambda>lineInfo.
                               createBreakpoint (session_client_name svc) (info_line lineInfo + 1))
                             infos
                  in Inr (void (updateBreakpoints svc (value_text ed) bps (h_path h))))))"

text \<open>\<^verbatim>\<open>onGutterClick\<close>; \<open>cm\<close> is the editor the click came from.\<close>

definition onGutterClick ::
  "EditorHandler \<Rightarrow> IDebugger \<Rightarrow> editor \<Rightarrow> int \<Rightarrow> error + EditorHandler \<times> IDebugger" where
  "onGutterClick h svc cm lineNumber =
     (case lineInfo cm lineNumber of
        None \<Rightarrow> Inr (h, svc)
      | Some info \<Rightarrow>
          if h_id h \<noteq> session_client_path svc then Inr (h, svc)
          else
            (let remove = (gutterMarkers (handle info) \<noteq> [])
             in case handler_getBreakpoints h svc of
                  Inl e \<Rightarrow> Inl e
                | Inr bps \<Rightarrow>
                    (let bps' =
                       (if remove then filter (\<lambda>ele. line ele \<noteq> info_line info + 1) bps
                        else bps @
                          [createBreakpoint
                             (case h_path h of Some p \<Rightarrow> p | None \<Rightarrow> session_client_name svc)
                             (info_line info + 1)])
                     in case h_editor h of
                          None \<Rightarrow> Inl TypeError
                        | Some ed \<Rightarrow>
                            Inr (h, void (updateBreakpoints svc (value_text ed) bps' (h_path h))))))"

text \<open>\<^verbatim>\<open>_addBreakpointsToEditor\<close>; \<^verbatim>\<open>forEach\<close> is the fold over the breakpoints.\<close>

definition addBreakpointsToEditor :: "EditorHandler \<Rightarrow> IDebugger \<Rightarrow> error + EditorHandler" where
  "addBreakpointsToEditor h svc =
     (case handler_getBreakpoints h svc of
        Inl e \<Rightarrow> Inl e
      | Inr bps \<Rightarrow>
          if h_id h \<noteq> session_client_path svc then Inr h
          else
            (case clearGutter (h_editor h) of
               None \<Rightarrow> if bps = [] then Inr h else Inl TypeError
             | Some editor \<Rightarrow>
                 Inr (h\<lparr>h_editor := Some (fold
                        (\<lambda>breakpoint ed.
                           setGutterMarker ed (line breakpoint - 1) ''breakpoints''
                             (Some createMarkerNode))
                        bps editor)\<rparr>)))"

text \<open>The slots connected to the breakpoints model's \<^verbatim>\<open>changed\<close> and \<^verbatim>\<open>restored\<close>
  signals, and to the callstack's \<^verbatim>\<open>currentFrameChanged\<close>.\<close>

definition onBreakpointsChanged :: "EditorHandler \<Rightarrow> IDebugger \<Rightarrow> error + EditorHandler" where
  "onBreakpointsChanged h svc =
     (case h_editor h of
        None \<Rightarrow> Inr h
      | Some ed \<Rightarrow> if isDisposed ed then Inr h else addBreakpointsToEditor h svc)"

definition onBreakpointsRestored :: "EditorHandler \<Rightarrow> IDebugger \<Rightarrow> error + EditorHandler" where
  "onBreakpointsRestored h svc =
     (case h_editor h of
        None \<Rightarrow> Inr h
      | Some ed \<Rightarrow> if isDisposed ed then Inr h else addBreakpointsToEditor h svc)"

definition onCurrentFrameChanged :: "EditorHandler \<Rightarrow> EditorHandler" where
  "onCurrentFrameChanged h = h\<lparr>h_editor := clearHighlight (h_editor h)\<rparr>"

definition connect :: "signal \<Rightarrow> nat option \<Rightarrow> EditorHandler \<Rightarrow> EditorHandler" where
  "connect s this h =
     h\<lparr>h_connections := h_connections h @ [\<lparr>conn_signal = s, conn_thisArg = this\<rparr>]\<rparr>"

text \<open>\<^verbatim>\<open>_onModelChanged\<close>.\<close>

definition onModelChanged :: "EditorHandler \<Rightarrow> IDebugger \<Rightarrow> EditorHandler" where
  "onModelChanged h svc =
     (let h1 = h\<lparr>h_debuggerModel := model svc\<rparr>
      in case h_debuggerModel h1 of
           None \<Rightarrow> h1
         | Some m \<Rightarrow>
             connect BreakpointsRestored None
               (connect BreakpointsChanged None
                 (connect CurrentFrameChanged None
                   (h1\<lparr>h_breakpointsModel := Some (breakpoints m)\<rparr>))))"

text \<open>\<^verbatim>\<open>_setupEditor\<close>.\<close>

definition setupEditor :: "EditorHandler \<Rightarrow> IDebugger \<Rightarrow> error + EditorHandler" where
  "setupEditor h svc =
     (case h_editor h of
        None \<Rightarrow> Inr h
      | Some ed \<Rightarrow>
          if isDisposed ed then Inr h
          else
            (case addBreakpointsToEditor h svc of
               Inl e \<Rightarrow> Inl e
             | Inr h' \<Rightarrow>
                 (case h_editor h' of
                    None \<Rightarrow> Inl TypeError
                  | Some editor \<Rightarrow>
                      Inr (h'\<lparr>h_editor := Some (editor
                             \<lparr>lineNumbers := True,
                              gutters := [''CodeMirror-linenumbers'', ''breakpoints''],
                              gutterClick := gutterClick editor @ [h_ref h']\<rparr>)\<rparr>))))"

text \<open>\<^verbatim>\<open>_clearEditor\<close>; \<^verbatim>\<open>off\<close> removes the first registration of the listener.\<close>

definition clearEditor :: "EditorHandler \<Rightarrow> error + EditorHandler" where
  "clearEditor h =
     (case h_editor h of
        None \<Rightarrow> Inr h
      | Some ed \<Rightarrow>
          if isDisposed ed then Inr h
          else
            (case clearGutter (clearHighlight (Some ed)) of
               None \<Rightarrow> Inl TypeError
             | Some editor \<Rightarrow>
                 Inr (h\<lparr>h_editor := Some (editor
                        \<lparr>lineNumbers := False,
                         gutters := [],
                         gutterClick := remove1 (h_ref h) (gutterClick editor)\<rparr>)\<rparr>)))"

text \<open>
  \<^verbatim>\<open>ActivityMonitor.dispose\<close> and \<^verbatim>\<open>Signal.clearData\<close>: the monitor's disposal marks
  it disposed; \<^verbatim>\<open>Signal.clearData(this)\<close> drops every connection in which the handler
  is the sender or the receiver, and the handler sends no signal of its own.
\<close>

definition monitor_dispose :: "ActivityMonitor \<Rightarrow> ActivityMonitor" where
  "monitor_dispose m = (if monitor_isDisposed m then m else m\<lparr>monitor_isDisposed := True\<rparr>)"

definition clearData :: "EditorHandler \<Rightarrow> EditorHandler" where
  "clearData h =
     h\<lparr>h_connections := filter (\<lambda>c. conn_thisArg c \<noteq> Some (h_ref h)) (h_connections h)\<rparr>"

definition dispose :: "EditorHandler \<Rightarrow> error + EditorHandler" where
  "dispose h =
     (if h_isDisposed h then Inr h
      else
        (case clearEditor (h\<lparr>h_editorMonitor := monitor_dispose (h_editorMonitor h)\<rparr>) of
           Inl e \<Rightarrow> Inl e
         | Inr h' \<Rightarrow> Inr (clearData (h'\<lparr>h_isDisposed := True\<rparr>))))"

text \<open>The constructor; \<open>this\<close> is the identity of the new handler object.\<close>

definition new_EditorHandler :: "nat \<Rightarrow> IOptions \<Rightarrow> error + EditorHandler" where
  "new_EditorHandler this options =
     (case opt_editor options of
        None \<Rightarrow> Inl TypeError
      | Some ed \<Rightarrow>
          setupEditor
            (connect ActivityStopped (Some this)
              (connect ModelChanged (Some this)
                (onModelChanged
                  \<lparr>h_ref = this,
                   h_id = session_client_path (opt_debuggerService options),
                   h_path = opt_path options,
                   h_editor = opt_editor options,
                   h_debuggerModel = None,
                   h_breakpointsModel = None,
                   h_editorMonitor =
                     \<lparr>timeout = EDITOR_CHANGED_TIMEOUT, monitor_isDisposed = False\<rparr>,
                   h_isDisposed = False,
                   h_connections = []\<rparr>
                  (opt_debuggerService options))))
            (opt_debuggerService options))"

section \<open>The breakpoints panel\<close>

text \<open>
  \<^verbatim>\<open>Breakpoints\<close>: the panel's child widgets, its CSS classes and the items of the
  header's toolbar.  The button's \<^verbatim>\<open>onClick\<close> is \<open>closeAll_onClick\<close>.
\<close>

record ToolbarButton =
  iconClassName :: string
  tooltip :: string

record Breakpoints =
  widgets :: "string list"
  classes :: "string list"
  toolbar :: "(string \<times> ToolbarButton) list"

definition new_Breakpoints :: Breakpoints where
  "new_Breakpoints =
     \<lparr>widgets = [''BreakpointsHeader'', ''CallstackBody''],
      classes = [''jp-DebuggerBreakpoints''],
      toolbar = [(''closeAll'',
        \<lparr>iconClassName = ''jp-CloseAllIcon'', tooltip = ''Remove All Breakpoints''\<rparr>)]\<rparr>"

definition closeAll_onClick :: "Breakpoints \<Rightarrow> IDebugger \<Rightarrow> Breakpoints \<times> IDebugger" where
  "closeAll_onClick panel service = (panel, void (clearBreakpoints service))"

section \<open>Observations on an editor\<close>

text \<open>
  What can be seen of an editor, by 0-indexed line number: the lines whose
  \<^verbatim>\<open>gutterMarkers\<close> is truthy, the lines with a marker in the \<^verbatim>\<open>breakpoints\<close>
  gutter, and the lines whose wrapper carries the highlight class.
\<close>

definition linesWithMarkers :: "editor \<Rightarrow> nat list" where
  "linesWithMarkers ed = filter (\<lambda>j. gutterMarkers (doc ed ! j) \<noteq> []) [0..<length (doc ed)]"

definition breakpointLines :: "editor \<Rightarrow> nat list" where
  "breakpointLines ed =
     filter (\<lambda>j. map_of (gutterMarkers (doc ed ! j)) ''breakpoints'' \<noteq> None) [0..<length (doc ed)]"

definition highlightedLines :: "editor \<Rightarrow> nat list" where
  "highlightedLines ed =
     filter (\<lambda>j. LINE_HIGHLIGHT_CLASS \<in> set (wrapClass (doc ed ! j))) [0..<length (doc ed)]"

text \<open>
  Two abbreviations for the proofs: the editor \<^verbatim>\<open>_addBreakpointsToEditor\<close> leaves
  (the gutter cleared, then one marker set per breakpoint), and the editor
  \<^verbatim>\<open>_clearEditor\<close> leaves.
\<close>

definition render :: "breakpoint list \<Rightarrow> editor \<Rightarrow> editor" where
  "render bps ed =
     fold (\<lambda>breakpoint e.
             setGutterMarker e (line breakpoint - 1) ''breakpoints'' (Some createMarkerNode))
       bps
       (eachLine (\<lambda>l. if gutterMarkers l \<noteq> [] then setLineMarker ''breakpoints'' None l else l) ed)"

definition stripped :: "nat \<Rightarrow> editor \<Rightarrow> editor" where
  "stripped this ed =
     (eachLine (\<lambda>l. if gutterMarkers l \<noteq> [] then setLineMarker ''breakpoints'' None l else l)
        (eachLine (removeClass ''wrap'' LINE_HIGHLIGHT_CLASS) ed))
     \<lparr>lineNumbers := False, gutters := [], gutterClick := remove1 this (gutterClick ed)\<rparr>"

section \<open>Example states\<close>

text \<open>
  A two-line editor whose second line carries a breakpoint marker and the
  highlight, a service whose model holds one breakpoint (line 2) for the file
  \<^verbatim>\<open>f.py\<close>, and a handler bound to both.  The \<open>cx\<close> states are a model whose
  breakpoint lies beyond the document, an editor without markers, a disposed
  editor, an editor with a marker in another gutter (\<^verbatim>\<open>lint\<close>), the handler the
  constructor returns for the example service and editor, and that handler and
  its editor after \<^verbatim>\<open>dispose()\<close>.
\<close>

definition ex_plain :: cm_line where
  "ex_plain = \<lparr>line_text = ''x = 1'', gutterMarkers = [], textClass = [], bgClass = [],
               wrapClass = []\<rparr>"

definition ex_marked :: cm_line where
  "ex_marked = \<lparr>line_text = ''y = 2'', gutterMarkers = [(''breakpoints'', createMarkerNode)],
                textClass = [], bgClass = [], wrapClass = [LINE_HIGHLIGHT_CLASS]\<rparr>"

definition ex_editor :: editor where
  "ex_editor = \<lparr>isDisposed = False, value_text = ''x = 1; y = 2'', doc = [ex_plain, ex_marked],
                lineNumbers = True, gutters = [''CodeMirror-linenumbers'', ''breakpoints''],
                gutterClick = [7]\<rparr>"

definition ex_model :: DebuggerModel where
  "ex_model = \<lparr>breakpoints = \<lparr>getBreakpoints =
     (\<lambda>id. if id = ''f.py'' then [createBreakpoint ''f.py'' 2] else [])\<rparr>\<rparr>"

definition ex_service :: IDebugger where
  "ex_service = \<lparr>session_client_path = ''nb.ipynb'', session_client_name = ''nb'',
                 model = Some ex_model, getCodeId = (\<lambda>code. ''id:'' @ code),
                 respond = (\<lambda>c. Pending), calls = []\<rparr>"

definition ex_handler :: EditorHandler where
  "ex_handler = \<lparr>h_ref = 7, h_id = ''nb.ipynb'', h_path = Some ''f.py'',
                 h_editor = Some ex_editor, h_debuggerModel = Some ex_model,
                 h_breakpointsModel = Some (breakpoints ex_model),
                 h_editorMonitor = \<lparr>timeout = EDITOR_CHANGED_TIMEOUT, monitor_isDisposed = False\<rparr>,
                 h_isDisposed = False,
                 h_connections = [\<lparr>conn_signal = CurrentFrameChanged, conn_thisArg = None\<rparr>,
                                  \<lparr>conn_signal = ModelChanged, conn_thisArg = Some 7\<rparr>]\<rparr>"

definition cx_far_model :: DebuggerModel where
  "cx_far_model = \<lparr>breakpoints = \<lparr>getBreakpoints =
     (\<lambda>id. if id = ''f.py'' then [createBreakpoint ''f.py'' 5] else [])\<rparr>\<rparr>"

definition cx_clean_editor :: editor where
  "cx_clean_editor = ex_editor\<lparr>doc := [ex_plain, ex_plain]\<rparr>"

definition cx_far_handler :: EditorHandler where
  "cx_far_handler =
     ex_handler\<lparr>h_editor := Some cx_clean_editor, h_debuggerModel := Some cx_far_model\<rparr>"

definition cx_disposed_editor :: editor where
  "cx_disposed_editor = ex_editor\<lparr>isDisposed := True\<rparr>"

definition cx_lint_editor :: editor where
  "cx_lint_editor =
     ex_editor\<lparr>doc := [ex_plain\<lparr>gutterMarkers := [(''lint'', createMarkerNode)]\<rparr>, ex_plain]\<rparr>"

definition cx_constructed :: EditorHandler where
  "cx_constructed =
     ex_handler\<lparr>h_connections :=
       [\<lparr>conn_signal = CurrentFrameChanged, conn_thisArg = None\<rparr>,
        \<lparr>conn_signal = BreakpointsChanged, conn_thisArg = None\<rparr>,
        \<lparr>conn_signal = BreakpointsRestored, conn_thisArg = None\<rparr>,
        \<lparr>conn_signal = ModelChanged, conn_thisArg = Some 7\<rparr>,
        \<lparr>conn_signal = ActivityStopped, conn_thisArg = Some 7\<rparr>]\<rparr>"

definition cx_stripped_editor :: editor where
  "cx_stripped_editor =
     ex_editor\<lparr>doc := [ex_plain, ex_marked\<lparr>gutterMarkers := [], wrapClass := []\<rparr>],
               lineNumbers := False, gutters := [], gutterClick := []\<rparr>"

definition cx_after_dispose :: EditorHandler where
  "cx_after_dispose =
     cx_constructed\<lparr>
       h_editor := Some cx_stripped_editor,
       h_editorMonitor := \<lparr>timeout = EDITOR_CHANGED_TIMEOUT, monitor_isDisposed = True\<rparr>,
       h_isDisposed := True,
       h_connections :=
         [\<lparr>conn_signal = CurrentFrameChanged, conn_thisArg = None\<rparr>,
          \<lparr>conn_signal = BreakpointsChanged, conn_thisArg = None\<rparr>,
          \<lparr>conn_signal = BreakpointsRestored, conn_thisArg = None\<rparr>]\<rparr>"

lemmas ex_defs = ex_plain_def ex_marked_def ex_editor_def ex_model_def ex_service_def ex_handler_def

lemmas cx_defs = cx_far_model_def cx_clean_editor_def cx_far_handler_def cx_disposed_editor_def
  cx_lint_editor_def cx_constructed_def cx_stripped_editor_def cx_after_dispose_def

section \<open>Facts about the editor's operations\<close>

lemma lineInfo_Some:
  "lineInfo ed n = Some info \<longleftrightarrow>
     0 \<le> n \<and> n < int (length (doc ed)) \<and> info = \<lparr>info_line = n, handle = doc ed ! nat n\<rparr>"
  by (auto simp: lineInfo_def isLine_def lineCount_def)

lemma clipLine_id: "0 \<le> n \<Longrightarrow> n < lineCount ed \<Longrightarrow> clipLine ed n = n"
  by (simp add: clipLine_def)

lemma clipLine_range: "doc ed \<noteq> [] \<Longrightarrow> nat (clipLine ed n) < length (doc ed)"
  by (cases "doc ed") (auto simp: clipLine_def lineCount_def)

lemma changeLine_doc:
  "doc (changeLine ed n f) =
     (if doc ed = [] then [] else (doc ed)[nat (clipLine ed n) := f (doc ed ! nat (clipLine ed n))])"
  by (auto simp: changeLine_def Let_def clipLine_range)

lemma changeLine_length [simp]: "length (doc (changeLine ed n f)) = length (doc ed)"
  by (simp add: changeLine_doc)

lemma changeLine_lineCount [simp]: "lineCount (changeLine ed n f) = lineCount ed"
  by (simp add: lineCount_def)

lemma changeLine_clipLine [simp]: "clipLine (changeLine ed n f) k = clipLine ed k"
  by (simp add: clipLine_def)

lemma changeLine_nth:
  "i < length (doc ed) \<Longrightarrow>
   doc (changeLine ed n f) ! i = (if nat (clipLine ed n) = i then f (doc ed ! i) else doc ed ! i)"
  by (auto simp: changeLine_doc)

lemma changeLine_rest: "(changeLine ed n f)\<lparr>doc := []\<rparr> = ed\<lparr>doc := []\<rparr>"
  by (simp add: changeLine_def Let_def)

lemma eachLine_simps [simp]:
  "doc (eachLine f ed) = map f (doc ed)"
  "lineCount (eachLine f ed) = lineCount ed"
  "clipLine (eachLine f ed) n = clipLine ed n"
  "(eachLine f ed)\<lparr>doc := []\<rparr> = ed\<lparr>doc := []\<rparr>"
  by (simp_all add: eachLine_def lineCount_def clipLine_def)

lemma setLineMarker_map_of:
  "map_of (gutterMarkers (setLineMarker g v l)) g' =
     (if g' = g then v else map_of (gutterMarkers l) g')"
  by (cases v) (simp_all add: setLineMarker_def update_conv' delete_conv')

lemma setLineMarker_rest:
  "(setLineMarker g v l)\<lparr>gutterMarkers := []\<rparr> = l\<lparr>gutterMarkers := []\<rparr>"
  by (cases v) (simp_all add: setLineMarker_def)

lemma setLineMarker_wrapClass [simp]: "wrapClass (setLineMarker g v l) = wrapClass l"
  by (cases v) (simp_all add: setLineMarker_def)

lemma removeClass_wrap [simp]:
  "wrapClass (removeClass ''wrap'' c l) = removeAll c (wrapClass l)"
  by (simp add: removeClass_def)

lemma addClass_wrap [simp]:
  "set (wrapClass (addClass ''wrap'' c l)) = insert c (set (wrapClass l))"
  by (auto simp: addClass_def Let_def)

lemma filter_upt_single: "k < n \<Longrightarrow> filter (\<lambda>j. j = k) [0..<n] = [k]"
proof (induction n)
  case 0
  then show ?case by simp
next
  case (Suc n)
  show ?case
  proof (cases "k = n")
    case True
    have "filter (\<lambda>j. j = n) [0..<n] = []" by (simp add: filter_empty_conv)
    with True show ?thesis by simp
  next
    case False
    with Suc show ?thesis by simp
  qed
qed

subsection \<open>Setting one marker per breakpoint\<close>

lemma fold_marker_length [simp]:
  "length (doc (fold (\<lambda>b e. setGutterMarker e (k b) g v) bps ed)) = length (doc ed)"
  by (induction bps arbitrary: ed) (simp_all add: setGutterMarker_def)

lemma fold_marker_clipLine [simp]:
  "clipLine (fold (\<lambda>b e. setGutterMarker e (k b) g v) bps ed) n = clipLine ed n"
  by (induction bps arbitrary: ed) (simp_all add: setGutterMarker_def)

lemma fold_marker_rest:
  "(fold (\<lambda>b e. setGutterMarker e (k b) g v) bps ed)\<lparr>doc := []\<rparr> = ed\<lparr>doc := []\<rparr>"
  by (induction bps arbitrary: ed) (simp_all add: setGutterMarker_def changeLine_rest)

lemma fold_marker_map_of:
  "i < length (doc ed) \<Longrightarrow>
   map_of (gutterMarkers (doc (fold (\<lambda>b e. setGutterMarker e (k b) g (Some mk)) bps ed) ! i)) g' =
     (if g' = g \<and> (\<exists>b\<in>set bps. nat (clipLine ed (k b)) = i) then Some mk
      else map_of (gutterMarkers (doc ed ! i)) g')"
proof (induction bps arbitrary: ed)
  case Nil
  then show ?case by simp
next
  case (Cons b bps)
  let ?ed1 = "setGutterMarker ed (k b) g (Some mk)"
  have len: "i < length (doc ?ed1)" using Cons.prems by (simp add: setGutterMarker_def)
  have clip: "\<And>n. clipLine ?ed1 n = clipLine ed n" by (simp add: setGutterMarker_def)
  have one: "\<And>x. map_of (gutterMarkers (doc ?ed1 ! i)) x =
      (if x = g \<and> nat (clipLine ed (k b)) = i then Some mk else map_of (gutterMarkers (doc ed ! i)) x)"
    using Cons.prems by (simp add: setGutterMarker_def changeLine_nth setLineMarker_map_of)
  show ?case
    using Cons.IH[OF len] unfolding clip one by auto
qed

lemma fold_marker_line_rest:
  "i < length (doc ed) \<Longrightarrow>
   (doc (fold (\<lambda>b e. setGutterMarker e (k b) g v) bps ed) ! i)\<lparr>gutterMarkers := []\<rparr> =
     (doc ed ! i)\<lparr>gutterMarkers := []\<rparr>"
proof (induction bps arbitrary: ed)
  case Nil
  then show ?case by simp
next
  case (Cons b bps)
  let ?ed1 = "setGutterMarker ed (k b) g v"
  have len: "i < length (doc ?ed1)" using Cons.prems by (simp add: setGutterMarker_def)
  have one: "(doc ?ed1 ! i)\<lparr>gutterMarkers := []\<rparr> = (doc ed ! i)\<lparr>gutterMarkers := []\<rparr>"
    using Cons.prems by (simp add: setGutterMarker_def changeLine_nth setLineMarker_rest)
  show ?case using Cons.IH[OF len] by (simp add: one)
qed

lemma render_length [simp]: "length (doc (render bps ed)) = length (doc ed)"
  by (simp add: render_def)

lemma render_rest: "(render bps ed)\<lparr>doc := []\<rparr> = ed\<lparr>doc := []\<rparr>"
  by (simp add: render_def fold_marker_rest)

lemma render_map_of:
  assumes "i < length (doc ed)"
  shows "map_of (gutterMarkers (doc (render bps ed) ! i)) g =
     (if g = ''breakpoints'' then
        (if \<exists>b\<in>set bps. nat (clipLine ed (line b - 1)) = i then Some createMarkerNode else None)
      else map_of (gutterMarkers (doc ed ! i)) g)"
  using assms
  by (simp add: render_def fold_marker_map_of setLineMarker_map_of)

lemma render_line_rest:
  assumes "i < length (doc ed)"
  shows "(doc (render bps ed) ! i)\<lparr>gutterMarkers := []\<rparr> = (doc ed ! i)\<lparr>gutterMarkers := []\<rparr>"
  using assms
  by (simp add: render_def fold_marker_line_rest setLineMarker_rest)

lemma render_lines_rest:
  "map (\<lambda>l. l\<lparr>gutterMarkers := []\<rparr>) (doc (render bps ed)) = map (\<lambda>l. l\<lparr>gutterMarkers := []\<rparr>) (doc ed)"
  by (rule nth_equalityI) (simp_all add: render_line_rest)

lemma render_breakpointLines:
  assumes "\<forall>b\<in>set bps. 1 \<le> line b \<and> line b \<le> lineCount ed"
  shows "int ` set (breakpointLines (render bps ed)) = (\<lambda>b. line b - 1) ` set bps"
proof -
  have clip: "\<And>b. b \<in> set bps \<Longrightarrow> clipLine ed (line b - 1) = line b - 1"
    using assms by (auto simp: clipLine_def)
  have "set (breakpointLines (render bps ed)) =
        {i. i < length (doc ed) \<and> (\<exists>b\<in>set bps. nat (clipLine ed (line b - 1)) = i)}"
    by (auto simp: breakpointLines_def render_map_of split: if_splits)
  also have "\<dots> = (\<lambda>b. nat (line b - 1)) ` set bps"
    using assms by (auto simp: clip lineCount_def)
  finally have "int ` set (breakpointLines (render bps ed)) = int ` (\<lambda>b. nat (line b - 1)) ` set bps"
    by simp
  also have "\<dots> = (\<lambda>b. line b - 1) ` set bps"
    using assms by (auto simp: image_image intro!: image_cong)
  finally show ?thesis .
qed

lemma render_marker_node:
  assumes "j \<in> set (breakpointLines (render bps ed))"
  shows "map_of (gutterMarkers (doc (render bps ed) ! j)) ''breakpoints'' = Some createMarkerNode"
  using assms by (auto simp: breakpointLines_def render_map_of split: if_splits)

subsection \<open>The handler's operations as equations\<close>

lemma getBreakpointsFromEditor_loop_eq:
  "getBreakpointsFromEditor_loop ed i acc =
     Inr (acc @ map (\<lambda>j. \<lparr>info_line = int j, handle = doc ed ! j\<rparr>)
                  (filter (\<lambda>j. gutterMarkers (doc ed ! j) \<noteq> []) [i..<length (doc ed)]))"
proof (induction ed i acc rule: getBreakpointsFromEditor_loop.induct)
  case (1 ed i acc)
  show ?case
  proof (cases "i < length (doc ed)")
    case True
    then have li: "lineInfo ed (int i) = Some \<lparr>info_line = int i, handle = doc ed ! i\<rparr>"
      by (simp add: lineInfo_Some)
    from True have up: "[i..<length (doc ed)] = i # [Suc i..<length (doc ed)]"
      by (simp add: upt_conv_Cons)
    from True have lt: "int i < lineCount ed" by (simp add: lineCount_def)
    show ?thesis
      using "1.IH"[OF lt li] lt li up
      by (subst getBreakpointsFromEditor_loop.simps) simp
  next
    case False
    then show ?thesis
      by (subst getBreakpointsFromEditor_loop.simps) (simp add: lineCount_def)
  qed
qed

lemma getBreakpointsFromEditor_eq:
  "h_editor h = Some ed \<Longrightarrow>
   getBreakpointsFromEditor h =
     Inr (map (\<lambda>j. \<lparr>info_line = int j, handle = doc ed ! j\<rparr>) (linesWithMarkers ed))"
  by (simp add: getBreakpointsFromEditor_def getBreakpointsFromEditor_loop_eq linesWithMarkers_def)

lemma sendEditorBreakpoints_eq:
  assumes "h_editor h = Some ed"
  shows "sendEditorBreakpoints h svc =
     Inr (if isDisposed ed then svc
          else svc\<lparr>calls := calls svc @
            [UpdateBreakpoints (value_text ed)
               (map (\<lambda>j. createBreakpoint (session_client_name svc) (int j + 1)) (linesWithMarkers ed))
               (h_path h)]\<rparr>)"
  using assms
  by (simp add: sendEditorBreakpoints_def getBreakpointsFromEditor_eq updateBreakpoints_def
      void_def comp_def)

lemma addBreakpointsToEditor_eq:
  assumes "h_editor h = Some ed" and "h_debuggerModel h = Some m"
  shows "addBreakpointsToEditor h svc =
     Inr (if h_id h \<noteq> session_client_path svc then h
          else h\<lparr>h_editor := Some (render
                 (getBreakpoints (breakpoints m)
                    (case h_path h of Some p \<Rightarrow> p | None \<Rightarrow> getCodeId svc (value_text ed))) ed)\<rparr>)"
  using assms
  by (simp add: addBreakpointsToEditor_def handler_getBreakpoints_def clearGutter_def render_def)

lemma addBreakpointsToEditor_keeps:
  "addBreakpointsToEditor h svc = Inr h' \<Longrightarrow>
     h_id h' = h_id h \<and> h_path h' = h_path h \<and> h_ref h' = h_ref h"
  by (auto simp: addBreakpointsToEditor_def split: sum.splits if_splits option.splits)

lemma setupEditor_keeps:
  "setupEditor h svc = Inr h' \<Longrightarrow>
     h_id h' = h_id h \<and> h_path h' = h_path h \<and> h_ref h' = h_ref h"
  by (auto simp: setupEditor_def split: sum.splits if_splits option.splits
      dest: addBreakpointsToEditor_keeps)

lemma onModelChanged_keeps [simp]:
  "h_id (onModelChanged h svc) = h_id h"
  "h_path (onModelChanged h svc) = h_path h"
  "h_ref (onModelChanged h svc) = h_ref h"
  by (simp_all add: onModelChanged_def connect_def Let_def split: option.splits)

lemma new_EditorHandler_binds:
  assumes "new_EditorHandler this options = Inr h"
  shows "h_id h = session_client_path (opt_debuggerService options) \<and>
         h_path h = opt_path options \<and> h_ref h = this"
proof (cases "opt_editor options")
  case None
  with assms show ?thesis by (simp add: new_EditorHandler_def)
next
  case (Some ed)
  with assms show ?thesis
    by (auto simp: new_EditorHandler_def connect_def dest!: setupEditor_keeps)
qed

lemma onGutterClick_cases:
  assumes "onGutterClick h svc cm n = Inr (h', svc')"
  shows "svc' = svc \<or>
     (\<exists>cur ed. handler_getBreakpoints h svc = Inr cur \<and> h_editor h = Some ed \<and>
        (svc' = svc\<lparr>calls := calls svc @
            [UpdateBreakpoints (value_text ed) (filter (\<lambda>b. line b \<noteq> n + 1) cur) (h_path h)]\<rparr> \<or>
         svc' = svc\<lparr>calls := calls svc @
            [UpdateBreakpoints (value_text ed)
               (cur @ [createBreakpoint
                  (case h_path h of Some p \<Rightarrow> p | None \<Rightarrow> session_client_name svc) (n + 1)])
               (h_path h)]\<rparr>))"
proof (cases "lineInfo cm n")
  case None
  with assms show ?thesis by (simp add: onGutterClick_def)
next
  case (Some info)
  then have info: "info_line info = n" by (simp add: lineInfo_Some)
  show ?thesis
    using assms Some info
    by (auto simp: onGutterClick_def updateBreakpoints_def void_def Let_def
        split: if_splits sum.splits option.splits)
qed

lemma showCurrentLine_live:
  assumes "\<not> isDisposed ed"
  shows "showCurrentLine (Some ed) n =
     Inr (Some (addLineClass (eachLine (removeClass ''wrap'' LINE_HIGHLIGHT_CLASS) ed) (n - 1)
                  ''wrap'' LINE_HIGHLIGHT_CLASS))"
  using assms by (simp add: showCurrentLine_def clearHighlight_def)

lemma highlighted_after:
  assumes "1 \<le> n" and "n \<le> lineCount ed"
  shows "highlightedLines (addLineClass (eachLine (removeClass ''wrap'' LINE_HIGHLIGHT_CLASS) ed)
           (n - 1) ''wrap'' LINE_HIGHLIGHT_CLASS) = [nat (n - 1)]"
proof -
  let ?ed1 = "eachLine (removeClass ''wrap'' LINE_HIGHLIGHT_CLASS) ed"
  let ?ed2 = "addLineClass ?ed1 (n - 1) ''wrap'' LINE_HIGHLIGHT_CLASS"
  have clip: "clipLine ed (n - 1) = n - 1"
    using assms by (simp add: clipLine_id)
  have k: "nat (n - 1) < length (doc ed)"
    using assms by (simp add: lineCount_def)
  have len: "length (doc ?ed2) = length (doc ed)"
    by (simp add: addLineClass_def)
  have "\<And>j. j < length (doc ed) \<Longrightarrow>
          (LINE_HIGHLIGHT_CLASS \<in> set (wrapClass (doc ?ed2 ! j))) = (j = nat (n - 1))"
    by (simp add: addLineClass_def changeLine_nth clip)
  then have "filter (\<lambda>j. LINE_HIGHLIGHT_CLASS \<in> set (wrapClass (doc ?ed2 ! j))) [0..<length (doc ed)]
      = filter (\<lambda>j. j = nat (n - 1)) [0..<length (doc ed)]"
    by (intro filter_cong) auto
  then show ?thesis
    by (simp add: highlightedLines_def len filter_upt_single[OF k])
qed

lemma clearEditor_eq:
  "clearEditor h =
     Inr (case h_editor h of
            None \<Rightarrow> h
          | Some ed \<Rightarrow> if isDisposed ed then h else h\<lparr>h_editor := Some (stripped (h_ref h) ed)\<rparr>)"
  by (simp add: clearEditor_def clearHighlight_def clearGutter_def stripped_def eachLine_def
      split: option.splits)

lemma stripped_props:
  "highlightedLines (stripped this ed) = [] \<and> breakpointLines (stripped this ed) = [] \<and>
   \<not> lineNumbers (stripped this ed) \<and> gutters (stripped this ed) = [] \<and>
   gutterClick (stripped this ed) = remove1 this (gutterClick ed)"
  by (simp add: stripped_def highlightedLines_def breakpointLines_def filter_empty_conv
      setLineMarker_map_of eachLine_def)

lemma dispose_eq:
  "dispose h =
     Inr (if h_isDisposed h then h
          else h\<lparr>h_editorMonitor := monitor_dispose (h_editorMonitor h),
                 h_editor := (case h_editor h of
                                None \<Rightarrow> None
                              | Some ed \<Rightarrow> if isDisposed ed then Some ed
                                           else Some (stripped (h_ref h) ed)),
                 h_isDisposed := True,
                 h_connections := filter (\<lambda>c. conn_thisArg c \<noteq> Some (h_ref h)) (h_connections h)\<rparr>)"
  by (cases "h_editor h") (simp_all add: dispose_def clearEditor_eq clearData_def)

lemma ex_new_EditorHandler:
  "new_EditorHandler 7 \<lparr>opt_debuggerService = ex_service, opt_editor = Some ex_editor,
                         opt_path = Some ''f.py''\<rparr> =
     Inr (ex_handler\<lparr>h_connections :=
            [\<lparr>conn_signal = CurrentFrameChanged, conn_thisArg = None\<rparr>,
             \<lparr>conn_signal = BreakpointsChanged, conn_thisArg = None\<rparr>,
             \<lparr>conn_signal = BreakpointsRestored, conn_thisArg = None\<rparr>,
             \<lparr>conn_signal = ModelChanged, conn_thisArg = Some 7\<rparr>,
             \<lparr>conn_signal = ActivityStopped, conn_thisArg = Some 7\<rparr>],
          h_editor := Some (ex_editor\<lparr>gutterClick := [7, 7]\<rparr>)\<rparr>)"
  by (simp add: new_EditorHandler_def setupEditor_def addBreakpointsToEditor_def
      handler_getBreakpoints_def onModelChanged_def connect_def
      clearGutter_def eachLine_def setGutterMarker_def changeLine_def clipLine_def lineCount_def
      setLineMarker_def createBreakpoint_def ex_defs)

lemma ex_linesWithMarkers: "linesWithMarkers ex_editor = [1]"
  by (simp add: linesWithMarkers_def ex_defs upt_rec)

section \<open>The claims\<close>

subsection \<open>C1: a gutter click submits the toggled breakpoint set\<close>

text \<open>
  C1.  A gutter click on line \<open>n\<close> (0-indexed), received by a handler whose bound
  session identity is the service's active session path and for which the editor
  returns a line info, issues exactly one \<^verbatim>\<open>updateBreakpoints\<close> request.  With
  \<open>cur\<close> the model's current breakpoints for this source (the handler holds an
  editor and a debugger model, so that this set exists): if the line carries a
  gutter marker, the submitted set is \<open>cur\<close> without the breakpoints whose line is
  \<open>n + 1\<close>; if not, it is \<open>cur\<close> with one new record appended, at line \<open>n + 1\<close>,
  active and verified, whose source name is the explicit path when there is one
  and the session's display name otherwise.  In both cases the request carries the
  editor's current text and the optional path, and the handler is unchanged.
\<close>

theorem onGutterClick_submits:
  assumes "h_id h = session_client_path svc"
    and "lineInfo cm n = Some info"
    and "h_editor h = Some ed"
    and "h_debuggerModel h = Some m"
    and "cur = getBreakpoints (breakpoints m)
                 (case h_path h of Some p \<Rightarrow> p | None \<Rightarrow> getCodeId svc (value_text ed))"
  shows "onGutterClick h svc cm n =
     Inr (h, svc\<lparr>calls := calls svc @
       [UpdateBreakpoints (value_text ed)
          (if gutterMarkers (doc cm ! nat n) \<noteq> []
           then filter (\<lambda>b. line b \<noteq> n + 1) cur
           else cur @ [\<lparr>line = n + 1, active = True, verified = True,
                        source = \<lparr>name = (case h_path h of Some p \<Rightarrow> p
                                             | None \<Rightarrow> session_client_name svc)\<rparr>\<rparr>])
          (h_path h)]\<rparr>)"
proof -
  from assms(2) have info: "info = \<lparr>info_line = n, handle = doc cm ! nat n\<rparr>"
    by (simp add: lineInfo_Some)
  have cur: "handler_getBreakpoints h svc = Inr cur"
    using assms(3-5) by (simp add: handler_getBreakpoints_def)
  show ?thesis
    using assms(1-3) cur info
    by (simp add: onGutterClick_def updateBreakpoints_def void_def createBreakpoint_def)
qed

text \<open>
  Witness for C1: on the example handler a click on the marked line 1 submits the
  empty set (the breakpoint at line 2 removed), and a click on the unmarked line 0
  submits the model's breakpoint followed by a new one at line 1.
\<close>

theorem onGutterClick_submits_witness:
  "onGutterClick ex_handler ex_service ex_editor 1 =
     Inr (ex_handler, ex_service\<lparr>calls := [UpdateBreakpoints ''x = 1; y = 2'' [] (Some ''f.py'')]\<rparr>) \<and>
   onGutterClick ex_handler ex_service ex_editor 0 =
     Inr (ex_handler, ex_service\<lparr>calls := [UpdateBreakpoints ''x = 1; y = 2''
            [\<lparr>line = 2, active = True, verified = True, source = \<lparr>name = ''f.py''\<rparr>\<rparr>,
             \<lparr>line = 1, active = True, verified = True, source = \<lparr>name = ''f.py''\<rparr>\<rparr>]
            (Some ''f.py'')]\<rparr>)"
proof -
  have 1: "h_id ex_handler = session_client_path ex_service" by (simp add: ex_defs)
  have 2: "lineInfo ex_editor 1 = Some \<lparr>info_line = 1, handle = ex_marked\<rparr>"
    by (simp add: lineInfo_def isLine_def lineCount_def ex_editor_def)
  have 3: "lineInfo ex_editor 0 = Some \<lparr>info_line = 0, handle = ex_plain\<rparr>"
    by (simp add: lineInfo_def isLine_def lineCount_def ex_editor_def)
  have 4: "h_editor ex_handler = Some ex_editor" by (simp add: ex_handler_def)
  have 5: "h_debuggerModel ex_handler = Some ex_model" by (simp add: ex_handler_def)
  show ?thesis
    using onGutterClick_submits[OF 1 2 4 5 refl] onGutterClick_submits[OF 1 3 4 5 refl]
    by (simp add: ex_defs createBreakpoint_def)
qed

subsection \<open>C2: the guards on the editor\<close>

text \<open>
  C2.  The claim is that every operation touching the editor first checks that the
  editor is non-null and not disposed, and does nothing otherwise.  The code does
  not: \<^verbatim>\<open>clearGutter\<close> checks only for \<^verbatim>\<open>null\<close> and removes the marker of a disposed
  editor; \<^verbatim>\<open>showCurrentLine\<close> adds the highlight to a disposed editor (only the
  clearing is guarded) and dereferences a \<^verbatim>\<open>null\<close> editor; \<^verbatim>\<open>_sendEditorBreakpoints\<close>
  dereferences a \<^verbatim>\<open>null\<close> editor.  The sibling operations \<^verbatim>\<open>clearHighlight\<close>,
  \<^verbatim>\<open>_setupEditor\<close> and \<^verbatim>\<open>_clearEditor\<close> make both checks.
\<close>

theorem editor_guards_incomplete:
  "isDisposed cx_disposed_editor \<and>
   clearGutter (Some cx_disposed_editor) =
     Some (cx_disposed_editor\<lparr>doc := [ex_plain, ex_marked\<lparr>gutterMarkers := []\<rparr>]\<rparr>) \<and>
   showCurrentLine (Some cx_disposed_editor) 1 =
     Inr (Some (cx_disposed_editor\<lparr>doc :=
       [ex_plain\<lparr>wrapClass := [LINE_HIGHLIGHT_CLASS]\<rparr>, ex_marked]\<rparr>)) \<and>
   showCurrentLine None 1 = Inl TypeError \<and>
   sendEditorBreakpoints (ex_handler\<lparr>h_editor := None\<rparr>) ex_service = Inl TypeError"
  by (simp add: clearGutter_def eachLine_def setLineMarker_def showCurrentLine_def
      clearHighlight_def addLineClass_def changeLine_def clipLine_def lineCount_def addClass_def
      sendEditorBreakpoints_def cx_defs ex_defs)

subsection \<open>C3: rendering the model's breakpoints\<close>

text \<open>
  Counterexample for C3 as stated.  The model holds one breakpoint, at line 5, for
  the handler's source; the editor has two lines and no marker; the handler's
  session is the active one.  After the \<^verbatim>\<open>changed\<close> notification the only marker
  is on line index 1 (the last line, to which the editor clips the line number),
  which is not the breakpoint's line.
\<close>

theorem render_markers_counterexample:
  "onBreakpointsChanged cx_far_handler ex_service =
     Inr (cx_far_handler\<lparr>h_editor := Some (cx_clean_editor\<lparr>doc :=
            [ex_plain, ex_plain\<lparr>gutterMarkers := [(''breakpoints'', createMarkerNode)]\<rparr>]\<rparr>)\<rparr>) \<and>
   breakpointLines (cx_clean_editor\<lparr>doc :=
            [ex_plain, ex_plain\<lparr>gutterMarkers := [(''breakpoints'', createMarkerNode)]\<rparr>]\<rparr>) = [1] \<and>
   handler_getBreakpoints cx_far_handler ex_service =
     Inr [\<lparr>line = 5, active = True, verified = True, source = \<lparr>name = ''f.py''\<rparr>\<rparr>] \<and>
   h_id cx_far_handler = session_client_path ex_service \<and>
   h_editor cx_far_handler = Some cx_clean_editor \<and>
   \<not> isDisposed cx_clean_editor \<and>
   lineCount cx_clean_editor = 2"
  by (simp add: onBreakpointsChanged_def addBreakpointsToEditor_def handler_getBreakpoints_def
      clearGutter_def eachLine_def setGutterMarker_def changeLine_def clipLine_def lineCount_def
      setLineMarker_def breakpointLines_def createBreakpoint_def cx_defs ex_defs upt_rec)

text \<open>
  C3, amended.  Let a handler hold an editor that is not disposed and a debugger
  model, let \<open>bps\<close> be the model's breakpoints for the handler's source, and let
  every breakpoint's line be a line of the editor (between 1 and the line count).
  After a \<^verbatim>\<open>changed\<close> or a \<^verbatim>\<open>restored\<close> notification: if the handler's bound session
  identity is the service's active session path, the lines carrying a marker in
  the \<^verbatim>\<open>breakpoints\<close> gutter are exactly the lines of the breakpoints (0-indexed:
  line - 1), whatever markers that gutter held before; each such marker is the
  node of \<^verbatim>\<open>createMarkerNode\<close>; and nothing else of the editor changes: the markers
  of every other gutter on every line, the lines' text and classes, and the
  editor's flag, text, options and listeners are as before.  If the identities
  differ, the handler and its editor are unchanged.
\<close>

theorem render_markers_amended:
  assumes "h_editor h = Some ed" and "\<not> isDisposed ed" and "h_debuggerModel h = Some m"
    and "bps = getBreakpoints (breakpoints m)
                 (case h_path h of Some p \<Rightarrow> p | None \<Rightarrow> getCodeId svc (value_text ed))"
    and "\<forall>b\<in>set bps. 1 \<le> line b \<and> line b \<le> lineCount ed"
  shows "if h_id h = session_client_path svc then
           (\<exists>ed'. onBreakpointsChanged h svc = Inr (h\<lparr>h_editor := Some ed'\<rparr>) \<and>
                  onBreakpointsRestored h svc = Inr (h\<lparr>h_editor := Some ed'\<rparr>) \<and>
                  int ` set (breakpointLines ed') = (\<lambda>b. line b - 1) ` set bps \<and>
                  (\<forall>j\<in>set (breakpointLines ed').
                     map_of (gutterMarkers (doc ed' ! j)) ''breakpoints'' = Some createMarkerNode) \<and>
                  (\<forall>i<length (doc ed). \<forall>g. g \<noteq> ''breakpoints'' \<longrightarrow>
                     map_of (gutterMarkers (doc ed' ! i)) g = map_of (gutterMarkers (doc ed ! i)) g) \<and>
                  ed'\<lparr>doc := []\<rparr> = ed\<lparr>doc := []\<rparr> \<and>
                  map (\<lambda>l. l\<lparr>gutterMarkers := []\<rparr>) (doc ed') = map (\<lambda>l. l\<lparr>gutterMarkers := []\<rparr>) (doc ed))
         else onBreakpointsChanged h svc = Inr h \<and> onBreakpointsRestored h svc = Inr h"
proof (cases "h_id h = session_client_path svc")
  case True
  have ch: "onBreakpointsChanged h svc = Inr (h\<lparr>h_editor := Some (render bps ed)\<rparr>)"
    using assms(1-4) True
    by (simp add: onBreakpointsChanged_def addBreakpointsToEditor_eq)
  have re: "onBreakpointsRestored h svc = Inr (h\<lparr>h_editor := Some (render bps ed)\<rparr>)"
    using assms(1-4) True
    by (simp add: onBreakpointsRestored_def addBreakpointsToEditor_eq)
  have others: "\<forall>i<length (doc ed). \<forall>g. g \<noteq> ''breakpoints'' \<longrightarrow>
      map_of (gutterMarkers (doc (render bps ed) ! i)) g = map_of (gutterMarkers (doc ed ! i)) g"
    by (simp add: render_map_of)
  show ?thesis
    using True ch re render_breakpointLines[OF assms(5)] render_marker_node[of _ bps ed]
      render_rest[of bps ed] render_lines_rest[of bps ed] others
    by auto
next
  case False
  then show ?thesis
    using assms(1-4)
    by (simp add: onBreakpointsChanged_def onBreakpointsRestored_def addBreakpointsToEditor_eq)
qed

text \<open>
  Witness for C3: the example model's breakpoint at line 2 lies within the
  two-line editor.  On the editor without markers the notification puts the one
  marker on line index 1; on the example editor, whose gutter already shows it,
  the marker is rendered there again; on the editor whose first line has a marker
  in the \<^verbatim>\<open>lint\<close> gutter that marker stays and the breakpoint's marker is added on
  line index 1; and a handler bound to another session leaves its editor as it
  is.
\<close>

theorem render_markers_witness:
  "onBreakpointsChanged (ex_handler\<lparr>h_editor := Some cx_clean_editor\<rparr>) ex_service =
     Inr (ex_handler\<lparr>h_editor := Some (cx_clean_editor\<lparr>doc :=
            [ex_plain, ex_plain\<lparr>gutterMarkers := [(''breakpoints'', createMarkerNode)]\<rparr>]\<rparr>)\<rparr>) \<and>
   breakpointLines (cx_clean_editor\<lparr>doc :=
            [ex_plain, ex_plain\<lparr>gutterMarkers := [(''breakpoints'', createMarkerNode)]\<rparr>]\<rparr>) = [1] \<and>
   onBreakpointsChanged ex_handler ex_service = Inr ex_handler \<and>
   onBreakpointsRestored ex_handler ex_service = Inr ex_handler \<and>
   breakpointLines ex_editor = [1] \<and>
   onBreakpointsChanged (ex_handler\<lparr>h_editor := Some cx_lint_editor\<rparr>) ex_service =
     Inr (ex_handler\<lparr>h_editor := Some (ex_editor\<lparr>doc :=
            [ex_plain\<lparr>gutterMarkers := [(''lint'', createMarkerNode)]\<rparr>,
             ex_plain\<lparr>gutterMarkers := [(''breakpoints'', createMarkerNode)]\<rparr>]\<rparr>)\<rparr>) \<and>
   onBreakpointsChanged ex_handler (ex_service\<lparr>session_client_path := ''other.ipynb''\<rparr>)
     = Inr ex_handler"
proof -
  have 10: "onBreakpointsChanged (ex_handler\<lparr>h_editor := Some cx_lint_editor\<rparr>) ex_service =
     Inr (ex_handler\<lparr>h_editor := Some (ex_editor\<lparr>doc :=
            [ex_plain\<lparr>gutterMarkers := [(''lint'', createMarkerNode)]\<rparr>,
             ex_plain\<lparr>gutterMarkers := [(''breakpoints'', createMarkerNode)]\<rparr>]\<rparr>)\<rparr>)"
    by (simp add: onBreakpointsChanged_def addBreakpointsToEditor_def handler_getBreakpoints_def
      clearGutter_def eachLine_def setGutterMarker_def changeLine_def clipLine_def lineCount_def
      setLineMarker_def createBreakpoint_def cx_defs ex_defs)
  have 1: "h_editor ex_handler = Some ex_editor" by (simp add: ex_handler_def)
  have 2: "\<not> isDisposed ex_editor" by (simp add: ex_editor_def)
  have 3: "h_debuggerModel ex_handler = Some ex_model" by (simp add: ex_handler_def)
  have 4: "\<forall>b\<in>set (getBreakpoints (breakpoints ex_model)
              (case h_path ex_handler of Some p \<Rightarrow> p
               | None \<Rightarrow> getCodeId ex_service (value_text ex_editor))).
             1 \<le> line b \<and> line b \<le> lineCount ex_editor"
    by (simp add: ex_defs createBreakpoint_def lineCount_def)
  have 5: "\<forall>b\<in>set (getBreakpoints (breakpoints ex_model)
              (case h_path ex_handler of Some p \<Rightarrow> p
               | None \<Rightarrow> getCodeId (ex_service\<lparr>session_client_path := ''other.ipynb''\<rparr>)
                          (value_text ex_editor))).
             1 \<le> line b \<and> line b \<le> lineCount ex_editor"
    by (simp add: ex_defs createBreakpoint_def lineCount_def)
  have 6: "breakpointLines ex_editor = [1]"
    by (simp add: breakpointLines_def ex_defs upt_rec)
  have 7: "onBreakpointsChanged ex_handler ex_service = Inr ex_handler"
    by (simp add: onBreakpointsChanged_def addBreakpointsToEditor_def handler_getBreakpoints_def
      clearGutter_def eachLine_def setGutterMarker_def changeLine_def clipLine_def lineCount_def
      setLineMarker_def createBreakpoint_def ex_defs)
  have 8: "onBreakpointsChanged (ex_handler\<lparr>h_editor := Some cx_clean_editor\<rparr>) ex_service =
     Inr (ex_handler\<lparr>h_editor := Some (cx_clean_editor\<lparr>doc :=
            [ex_plain, ex_plain\<lparr>gutterMarkers := [(''breakpoints'', createMarkerNode)]\<rparr>]\<rparr>)\<rparr>)"
    by (simp add: onBreakpointsChanged_def addBreakpointsToEditor_def handler_getBreakpoints_def
      clearGutter_def eachLine_def setGutterMarker_def changeLine_def clipLine_def lineCount_def
      setLineMarker_def createBreakpoint_def cx_defs ex_defs)
  have 9: "breakpointLines (cx_clean_editor\<lparr>doc :=
            [ex_plain, ex_plain\<lparr>gutterMarkers := [(''breakpoints'', createMarkerNode)]\<rparr>]\<rparr>) = [1]"
    by (simp add: breakpointLines_def cx_defs ex_defs upt_rec)
  show ?thesis
    using render_markers_amended[OF 1 2 3 refl 4]
      render_markers_amended[OF 1 2 3 refl 5] 6 7 8 9 10
    by (auto simp: ex_defs)
qed

subsection \<open>C4: disposal\<close>

text \<open>
  Disposal never raises and is idempotent.  \<^verbatim>\<open>dispose()\<close> always returns, leaves the
  handler disposed, and a call on the handler it returns changes nothing.  On a
  handler that is already disposed it changes nothing.  On a handler that is not,
  it disposes the debounce monitor, removes every signal connection whose
  receiver is the handler, sets \<open>isDisposed\<close>, and, when the editor is present and
  not disposed, leaves it with no highlighted line, no breakpoint marker, line
  numbers off, no gutters and the handler's gutter-click listener removed; an
  editor that is absent or disposed is left alone.
\<close>

lemma dispose_idempotent:
  "\<exists>h'. dispose h = Inr h' \<and> dispose h' = Inr h' \<and> h_isDisposed h' \<and>
     (if h_isDisposed h then h' = h
      else monitor_isDisposed (h_editorMonitor h') \<and>
           filter (\<lambda>c. conn_thisArg c = Some (h_ref h)) (h_connections h') = [] \<and>
           (case h_editor h of
              None \<Rightarrow> h_editor h' = None
            | Some ed \<Rightarrow>
                if isDisposed ed then h_editor h' = Some ed
                else (\<exists>ed'. h_editor h' = Some ed' \<and>
                        highlightedLines ed' = [] \<and> breakpointLines ed' = [] \<and>
                        \<not> lineNumbers ed' \<and> gutters ed' = [] \<and>
                        gutterClick ed' = remove1 (h_ref h) (gutterClick ed))))"
proof (cases "h_isDisposed h")
  case True
  then show ?thesis by (simp add: dispose_def)
next
  case False
  show ?thesis
    using False stripped_props[of "h_ref h"]
    by (cases "h_editor h")
       (auto simp: dispose_eq monitor_dispose_def filter_empty_conv)
qed

text \<open>
  C4.  The claim is that the first \<^verbatim>\<open>dispose()\<close> detaches the handler's
  notifications, besides stopping the monitor, stripping the editor and setting
  \<open>isDisposed\<close>.  The code does not detach them all: \<^verbatim>\<open>Signal.clearData(this)\<close>
  removes the connections made with the handler as receiver (\<^verbatim>\<open>modelChanged\<close> and
  \<^verbatim>\<open>activityStopped\<close>), but \<^verbatim>\<open>_onModelChanged\<close> connects its three slots
  (\<^verbatim>\<open>currentFrameChanged\<close>, \<^verbatim>\<open>changed\<close>, \<^verbatim>\<open>restored\<close>) without a receiver, and they
  stay connected.  On the handler the constructor returns for the example service
  and editor, \<^verbatim>\<open>dispose()\<close> strips the editor and leaves those three connections; a
  \<^verbatim>\<open>changed\<close> notification then renders the breakpoint's marker on the stripped
  editor again, although the handler is disposed.
\<close>

theorem dispose_keeps_model_slots:
  "new_EditorHandler 7 \<lparr>opt_debuggerService = ex_service,
                         opt_editor = Some (ex_editor\<lparr>gutterClick := []\<rparr>),
                         opt_path = Some ''f.py''\<rparr> = Inr cx_constructed \<and>
   dispose cx_constructed = Inr cx_after_dispose \<and>
   h_isDisposed cx_after_dispose \<and>
   map conn_signal (h_connections cx_after_dispose) =
     [CurrentFrameChanged, BreakpointsChanged, BreakpointsRestored] \<and>
   h_editor cx_after_dispose = Some cx_stripped_editor \<and>
   breakpointLines cx_stripped_editor = [] \<and>
   onBreakpointsChanged cx_after_dispose ex_service =
     Inr (cx_after_dispose\<lparr>h_editor := Some (cx_stripped_editor\<lparr>doc :=
            [ex_plain, ex_marked\<lparr>wrapClass := []\<rparr>]\<rparr>)\<rparr>) \<and>
   breakpointLines (cx_stripped_editor\<lparr>doc := [ex_plain, ex_marked\<lparr>wrapClass := []\<rparr>]\<rparr>) = [1]"
proof -
  have 1: "new_EditorHandler 7 \<lparr>opt_debuggerService = ex_service,
                         opt_editor = Some (ex_editor\<lparr>gutterClick := []\<rparr>),
                         opt_path = Some ''f.py''\<rparr> = Inr cx_constructed"
    by (simp add: new_EditorHandler_def setupEditor_def addBreakpointsToEditor_def
      handler_getBreakpoints_def onModelChanged_def connect_def
      clearGutter_def eachLine_def setGutterMarker_def changeLine_def clipLine_def lineCount_def
      setLineMarker_def createBreakpoint_def cx_defs ex_defs)
  have 2: "dispose cx_constructed = Inr cx_after_dispose"
    by (simp add: dispose_def clearEditor_def clearHighlight_def clearGutter_def eachLine_def
      removeClass_def setLineMarker_def monitor_dispose_def clearData_def cx_defs ex_defs)
  have 3: "h_isDisposed cx_after_dispose \<and>
     map conn_signal (h_connections cx_after_dispose) =
       [CurrentFrameChanged, BreakpointsChanged, BreakpointsRestored] \<and>
     h_editor cx_after_dispose = Some cx_stripped_editor"
    by (simp add: cx_after_dispose_def)
  have 4: "breakpointLines cx_stripped_editor = []"
    by (simp add: breakpointLines_def cx_defs ex_defs upt_rec)
  have 5: "onBreakpointsChanged cx_after_dispose ex_service =
     Inr (cx_after_dispose\<lparr>h_editor := Some (cx_stripped_editor\<lparr>doc :=
            [ex_plain, ex_marked\<lparr>wrapClass := []\<rparr>]\<rparr>)\<rparr>)"
    by (simp add: onBreakpointsChanged_def addBreakpointsToEditor_def handler_getBreakpoints_def
      clearGutter_def eachLine_def setGutterMarker_def changeLine_def clipLine_def lineCount_def
      setLineMarker_def createBreakpoint_def cx_defs ex_defs)
  have 6: "breakpointLines (cx_stripped_editor\<lparr>doc := [ex_plain, ex_marked\<lparr>wrapClass := []\<rparr>]\<rparr>) = [1]"
    by (simp add: breakpointLines_def cx_defs ex_defs upt_rec)
  from 1 2 3 4 5 6 show ?thesis by simp
qed

subsection \<open>C5: highlighting the current line\<close>

text \<open>
  Counterexample for C5 as stated ("for every editor and every line").  On a
  disposed editor whose second line is highlighted, \<^verbatim>\<open>showCurrentLine(editor, 1)\<close>
  clears nothing (the clearing is guarded by the disposal check) and still adds
  the highlight to the first line: two lines carry the highlight afterwards.  And
  on the live two-line editor \<^verbatim>\<open>showCurrentLine(editor, 5)\<close> highlights the last line
  (index 1), since there is no line 5.
\<close>

theorem showCurrentLine_counterexample:
  "isDisposed cx_disposed_editor \<and>
   highlightedLines cx_disposed_editor = [1] \<and>
   showCurrentLine (Some cx_disposed_editor) 1 =
     Inr (Some (cx_disposed_editor\<lparr>doc :=
       [ex_plain\<lparr>wrapClass := [LINE_HIGHLIGHT_CLASS]\<rparr>, ex_marked]\<rparr>)) \<and>
   highlightedLines (cx_disposed_editor\<lparr>doc :=
       [ex_plain\<lparr>wrapClass := [LINE_HIGHLIGHT_CLASS]\<rparr>, ex_marked]\<rparr>) = [0, 1] \<and>
   showCurrentLine (Some ex_editor) 5 = Inr (Some ex_editor) \<and>
   highlightedLines ex_editor = [1] \<and>
   lineCount ex_editor = 2"
  by (simp add: showCurrentLine_def clearHighlight_def addLineClass_def changeLine_def
      clipLine_def lineCount_def addClass_def removeClass_def eachLine_def highlightedLines_def
      cx_defs ex_defs upt_rec)

text \<open>
  C5, amended.  For every editor that is present and not disposed, and every line
  number \<open>n\<close> between 1 and the editor's line count, \<^verbatim>\<open>showCurrentLine(editor, n)\<close>
  returns without error and leaves exactly one line highlighted, the line with
  0-indexed number \<open>n - 1\<close>, whatever was highlighted before; the same holds when
  \<^verbatim>\<open>clearHighlight\<close> is called first.
\<close>

theorem showCurrentLine_amended:
  assumes "\<not> isDisposed ed" and "1 \<le> n" and "n \<le> lineCount ed"
  shows "\<exists>ed'. showCurrentLine (Some ed) n = Inr (Some ed') \<and>
           showCurrentLine (clearHighlight (Some ed)) n = Inr (Some ed') \<and>
           highlightedLines ed' = [nat (n - 1)]"
proof -
  have "clearHighlight (Some ed) = Some (eachLine (removeClass ''wrap'' LINE_HIGHLIGHT_CLASS) ed)"
    using assms(1) by (simp add: clearHighlight_def)
  moreover have "eachLine (removeClass ''wrap'' LINE_HIGHLIGHT_CLASS)
                   (eachLine (removeClass ''wrap'' LINE_HIGHLIGHT_CLASS) ed)
                 = eachLine (removeClass ''wrap'' LINE_HIGHLIGHT_CLASS) ed"
    by (simp add: eachLine_def removeClass_def)
  moreover have "\<not> isDisposed (eachLine (removeClass ''wrap'' LINE_HIGHLIGHT_CLASS) ed)"
    using assms(1) by (simp add: eachLine_def)
  ultimately show ?thesis
    using showCurrentLine_live[OF assms(1), of n] highlighted_after[OF assms(2,3)]
    by (simp add: showCurrentLine_live)
qed

text \<open>
  Witness for C5: in the example editor line index 1 is highlighted;
  \<^verbatim>\<open>showCurrentLine(editor, 1)\<close> leaves only line index 0 highlighted.
\<close>

theorem showCurrentLine_witness:
  "showCurrentLine (Some ex_editor) 1 =
     Inr (Some (ex_editor\<lparr>doc := [ex_plain\<lparr>wrapClass := [LINE_HIGHLIGHT_CLASS]\<rparr>,
                                    ex_marked\<lparr>wrapClass := []\<rparr>]\<rparr>)) \<and>
   highlightedLines ex_editor = [1] \<and>
   highlightedLines (ex_editor\<lparr>doc := [ex_plain\<lparr>wrapClass := [LINE_HIGHLIGHT_CLASS]\<rparr>,
                                    ex_marked\<lparr>wrapClass := []\<rparr>]\<rparr>) = [0]"
proof -
  have 1: "\<not> isDisposed ex_editor" by (simp add: ex_editor_def)
  have 2: "(1::int) \<le> 1" by simp
  have 3: "1 \<le> lineCount ex_editor" by (simp add: lineCount_def ex_editor_def)
  have 4: "showCurrentLine (Some ex_editor) 1 =
     Inr (Some (ex_editor\<lparr>doc := [ex_plain\<lparr>wrapClass := [LINE_HIGHLIGHT_CLASS]\<rparr>,
                                    ex_marked\<lparr>wrapClass := []\<rparr>]\<rparr>))"
    by (simp add: showCurrentLine_def clearHighlight_def addLineClass_def changeLine_def
      clipLine_def lineCount_def addClass_def removeClass_def eachLine_def ex_defs)
  have 5: "highlightedLines ex_editor = [1]"
    by (simp add: highlightedLines_def ex_defs upt_rec)
  show ?thesis
    using showCurrentLine_amended[OF 1 2 3] 4 5 by auto
qed

subsection \<open>C6: the debounced submission\<close>

text \<open>
  C6.  When the debounce elapses on a handler whose editor is present and not
  disposed, \<^verbatim>\<open>_sendEditorBreakpoints\<close> returns without error and issues exactly one
  \<^verbatim>\<open>updateBreakpoints\<close> request: its breakpoints are, in line order, one record for
  each line \<open>j\<close> (0-indexed) that carries a gutter marker and for no other line, at
  line \<open>j + 1\<close>, active and verified, with the session's display name as source
  name; it carries the editor's current text and the optional path.
\<close>

theorem sendEditorBreakpoints_submits:
  assumes "h_editor h = Some ed" and "\<not> isDisposed ed"
  shows "sendEditorBreakpoints h svc =
     Inr (svc\<lparr>calls := calls svc @
       [UpdateBreakpoints (value_text ed)
          (map (\<lambda>j. \<lparr>line = int j + 1, active = True, verified = True,
                       source = \<lparr>name = session_client_name svc\<rparr>\<rparr>)
               (linesWithMarkers ed))
          (h_path h)]\<rparr>)"
  using assms by (simp add: sendEditorBreakpoints_eq createBreakpoint_def)

text \<open>
  Witness for C6: the example editor's only marked line is line index 1, so the
  breakpoint submitted is at line 2, named after the session.
\<close>

theorem sendEditorBreakpoints_submits_witness:
  "sendEditorBreakpoints ex_handler ex_service =
     Inr (ex_service\<lparr>calls := [UpdateBreakpoints ''x = 1; y = 2''
            [\<lparr>line = 2, active = True, verified = True, source = \<lparr>name = ''nb''\<rparr>\<rparr>]
            (Some ''f.py'')]\<rparr>)"
proof -
  have 1: "h_editor ex_handler = Some ex_editor" by (simp add: ex_handler_def)
  have 2: "\<not> isDisposed ex_editor" by (simp add: ex_editor_def)
  show ?thesis
    using sendEditorBreakpoints_submits[OF 1 2, of ex_service] ex_linesWithMarkers
    by (simp add: ex_defs createBreakpoint_def)
qed

subsection \<open>C7: a stale handler ignores gutter clicks\<close>

text \<open>
  C7.  A gutter click received by a handler whose bound session identity differs
  from the service's active session path returns with the handler and the service
  exactly as they were: no request is issued and nothing changes.  The bound
  identity is the service's session client path at construction.
\<close>

theorem stale_click_ignored:
  "(h_id h \<noteq> session_client_path svc \<longrightarrow> onGutterClick h svc cm n = Inr (h, svc)) \<and>
   (new_EditorHandler this options = Inr h0 \<longrightarrow>
      h_id h0 = session_client_path (opt_debuggerService options))"
  using new_EditorHandler_binds[of this options h0]
  by (simp add: onGutterClick_def split: option.splits)

text \<open>
  Witness for C7: the example handler, constructed while the session path was
  \<^verbatim>\<open>nb.ipynb\<close>, ignores a click once the active session is \<^verbatim>\<open>other.ipynb\<close>.
\<close>

theorem stale_click_ignored_witness:
  "onGutterClick ex_handler (ex_service\<lparr>session_client_path := ''other.ipynb''\<rparr>) ex_editor 1 =
     Inr (ex_handler, ex_service\<lparr>session_client_path := ''other.ipynb''\<rparr>) \<and>
   h_id (ex_handler\<lparr>h_connections :=
            [\<lparr>conn_signal = CurrentFrameChanged, conn_thisArg = None\<rparr>,
             \<lparr>conn_signal = BreakpointsChanged, conn_thisArg = None\<rparr>,
             \<lparr>conn_signal = BreakpointsRestored, conn_thisArg = None\<rparr>,
             \<lparr>conn_signal = ModelChanged, conn_thisArg = Some 7\<rparr>,
             \<lparr>conn_signal = ActivityStopped, conn_thisArg = Some 7\<rparr>],
          h_editor := Some (ex_editor\<lparr>gutterClick := [7, 7]\<rparr>)\<rparr>) = ''nb.ipynb''"
proof -
  have 1: "h_id ex_handler \<noteq> session_client_path (ex_service\<lparr>session_client_path := ''other.ipynb''\<rparr>)"
    by (simp add: ex_defs)
  have 2: "session_client_path (opt_debuggerService
             \<lparr>opt_debuggerService = ex_service, opt_editor = Some ex_editor,
              opt_path = Some ''f.py''\<rparr>) = ''nb.ipynb''"
    by (simp add: ex_service_def)
  show ?thesis
    using stale_click_ignored[of ex_handler
        "ex_service\<lparr>session_client_path := ''other.ipynb''\<rparr>" ex_editor 1
        7 "\<lparr>opt_debuggerService = ex_service, opt_editor = Some ex_editor,
            opt_path = Some ''f.py''\<rparr>"] 1 2 ex_new_EditorHandler
    by simp
qed

subsection \<open>C8: the source identity\<close>

text \<open>
  C8.  When the handler reads the model's breakpoints (it holds an editor and a
  debugger model), the key is the explicit path when the handler has one,
  whatever \<^verbatim>\<open>getCodeId\<close> would answer, and otherwise \<^verbatim>\<open>getCodeId\<close> of the editor's
  current text.  The handler's path is the one given at construction.
\<close>

theorem source_identity_key:
  assumes "h_editor h = Some ed" and "h_debuggerModel h = Some m"
  shows "(case h_path h of
            Some p \<Rightarrow> handler_getBreakpoints h svc = Inr (getBreakpoints (breakpoints m) p)
          | None \<Rightarrow> handler_getBreakpoints h svc =
                     Inr (getBreakpoints (breakpoints m) (getCodeId svc (value_text ed)))) \<and>
         (new_EditorHandler this options = Inr h0 \<longrightarrow> h_path h0 = opt_path options)"
  using assms new_EditorHandler_binds[of this options h0]
  by (simp add: handler_getBreakpoints_def split: option.splits)

text \<open>
  Witness for C8: with the path \<^verbatim>\<open>f.py\<close> the example handler reads the model's
  breakpoints of \<^verbatim>\<open>f.py\<close>; without a path it reads those of the code identifier.
\<close>

theorem source_identity_key_witness:
  "handler_getBreakpoints ex_handler ex_service =
     Inr [\<lparr>line = 2, active = True, verified = True, source = \<lparr>name = ''f.py''\<rparr>\<rparr>] \<and>
   handler_getBreakpoints (ex_handler\<lparr>h_path := None\<rparr>) ex_service =
     Inr (getBreakpoints (breakpoints ex_model) ''id:x = 1; y = 2'')"
proof -
  have 1: "h_editor ex_handler = Some ex_editor" by (simp add: ex_handler_def)
  have 2: "h_debuggerModel ex_handler = Some ex_model" by (simp add: ex_handler_def)
  have 3: "h_editor (ex_handler\<lparr>h_path := None\<rparr>) = Some ex_editor" by (simp add: ex_handler_def)
  have 4: "h_debuggerModel (ex_handler\<lparr>h_path := None\<rparr>) = Some ex_model" by (simp add: ex_handler_def)
  show ?thesis
    using source_identity_key[OF 1 2, of ex_service] source_identity_key[OF 3 4, of ex_service]
    by (simp add: ex_defs createBreakpoint_def)
qed

subsection \<open>C9: the panel's clear-all button\<close>

text \<open>
  C9.  Activating the header's button issues exactly one request, the service's
  \<^verbatim>\<open>clearBreakpoints\<close>; the promise is dropped, so the outcome is the same however
  the service settles it (pending, resolved or rejected); the panel itself is
  unchanged.
\<close>

theorem closeAll_clears:
  "closeAll_onClick panel service =
     (panel, service\<lparr>calls := calls service @ [ClearBreakpoints]\<rparr>)"
  by (simp add: closeAll_onClick_def clearBreakpoints_def void_def)

subsection \<open>C10: created breakpoints are active and verified\<close>

text \<open>
  C10.  A record built by \<^verbatim>\<open>createBreakpoint\<close> is active and verified and its source
  holds the name only.  Every breakpoint the debounced submission sends is such a
  record, named after the session; every breakpoint a gutter click sends is either
  one of the model's current breakpoints or such a record, named after the path or
  the session.
\<close>

theorem created_breakpoints_active_verified:
  "active (createBreakpoint s k) \<and> verified (createBreakpoint s k) \<and>
   source (createBreakpoint s k) = \<lparr>name = s\<rparr> \<and> line (createBreakpoint s k) = k \<and>
   (sendEditorBreakpoints h svc = Inr svc' \<longrightarrow>
      calls svc' = calls svc \<or>
      (\<exists>code bps p. calls svc' = calls svc @ [UpdateBreakpoints code bps p] \<and>
         (\<forall>b\<in>set bps. active b \<and> verified b \<and>
                        source b = \<lparr>name = session_client_name svc\<rparr>))) \<and>
   (onGutterClick h svc cm n = Inr (h', svc'') \<longrightarrow>
      calls svc'' = calls svc \<or>
      (\<exists>code bps p cur. handler_getBreakpoints h svc = Inr cur \<and>
         calls svc'' = calls svc @ [UpdateBreakpoints code bps p] \<and>
         (\<forall>b\<in>set bps. b \<in> set cur \<or>
            (active b \<and> verified b \<and>
             source b = \<lparr>name = (case h_path h of Some p \<Rightarrow> p
                                  | None \<Rightarrow> session_client_name svc)\<rparr>))))"
proof -
  have a: "active (createBreakpoint s k) \<and> verified (createBreakpoint s k) \<and>
     source (createBreakpoint s k) = \<lparr>name = s\<rparr> \<and> line (createBreakpoint s k) = k"
    by (simp add: createBreakpoint_def)
  have b: "calls svc' = calls svc \<or>
      (\<exists>code bps p. calls svc' = calls svc @ [UpdateBreakpoints code bps p] \<and>
         (\<forall>b\<in>set bps. active b \<and> verified b \<and>
                        source b = \<lparr>name = session_client_name svc\<rparr>))"
    if "sendEditorBreakpoints h svc = Inr svc'"
  proof (cases "h_editor h")
    case None
    with that show ?thesis by (simp add: sendEditorBreakpoints_def)
  next
    case (Some ed)
    show ?thesis
      using that sendEditorBreakpoints_eq[OF Some, of svc]
      by (cases "isDisposed ed") (auto simp: createBreakpoint_def)
  qed
  have c: "calls svc'' = calls svc \<or>
      (\<exists>code bps p cur. handler_getBreakpoints h svc = Inr cur \<and>
         calls svc'' = calls svc @ [UpdateBreakpoints code bps p] \<and>
         (\<forall>b\<in>set bps. b \<in> set cur \<or>
            (active b \<and> verified b \<and>
             source b = \<lparr>name = (case h_path h of Some p \<Rightarrow> p
                                  | None \<Rightarrow> session_client_name svc)\<rparr>)))"
    if "onGutterClick h svc cm n = Inr (h', svc'')"
    using onGutterClick_cases[OF that]
    by (auto simp: createBreakpoint_def)
  from a b c show ?thesis by blast
qed

text \<open>
  Witness for C10: the breakpoint the example handler's debounced submission
  sends is active and verified and carries the session's name.
\<close>

theorem created_breakpoints_active_verified_witness:
  "sendEditorBreakpoints ex_handler ex_service =
     Inr (ex_service\<lparr>calls := [UpdateBreakpoints ''x = 1; y = 2''
            [createBreakpoint ''nb'' 2] (Some ''f.py'')]\<rparr>) \<and>
   active (createBreakpoint ''nb'' 2) \<and> verified (createBreakpoint ''nb'' 2) \<and>
   source (createBreakpoint ''nb'' 2) = \<lparr>name = ''nb''\<rparr>"
proof -
  have e: "h_editor ex_handler = Some ex_editor" by (simp add: ex_handler_def)
  have 1: "sendEditorBreakpoints ex_handler ex_service =
     Inr (ex_service\<lparr>calls := [UpdateBreakpoints ''x = 1; y = 2''
            [createBreakpoint ''nb'' 2] (Some ''f.py'')]\<rparr>)"
    using sendEditorBreakpoints_eq[OF e, of ex_service] ex_linesWithMarkers
    by (simp add: ex_defs)
  show ?thesis
    using created_breakpoints_active_verified[of "''nb''" 2 ex_handler ex_service
        "ex_service\<lparr>calls := [UpdateBreakpoints ''x = 1; y = 2''
            [createBreakpoint ''nb'' 2] (Some ''f.py'')]\<rparr>"] 1
    by simp
qed

end
